theory Spec2Isabelle
  imports Main
begin

section \<open>UnimplementedViewProps (ABI46_0_0UnimplementedViewProps.cpp)\<close>

text \<open>
  The translation unit defines the two member functions of the class
  \<^verbatim>\<open>UnimplementedViewProps\<close>:
  \<^verbatim>\<open>
  void UnimplementedViewProps::setComponentName(ComponentName componentName) {
    componentName_ = componentName;
  }
  ComponentName UnimplementedViewProps::getComponentName() const {
    return componentName_;
  }
  \<close>
  The class declaration and the typedef \<^verbatim>\<open>ComponentName\<close> live in headers outside the
  excerpt. Both bodies only copy a \<^verbatim>\<open>ComponentName\<close>, so its representation is the type
  parameter \<open>'n\<close>.

  Modelled from the spec: the class declaration (\<^verbatim>\<open>UnimplementedViewProps.h\<close> is missing),
  "holds a single attribute, \<^verbatim>\<open>componentName_\<close>". The record's extension slot \<open>'m\<close> stands
  for every other part of the object (what a base class or a later declaration
  contributes), so nothing proved below depends on the object having no further state.
  A name that ends in an underscore is not accepted in a term, so the field
  \<^verbatim>\<open>componentName_\<close> is written \<open>componentName_'\<close>.
\<close>

record 'n UnimplementedViewProps =
  componentName_' :: 'n

definition setComponentName ::
  "'n \<Rightarrow> ('n, 'm) UnimplementedViewProps_scheme \<Rightarrow> ('n, 'm) UnimplementedViewProps_scheme" where
  "setComponentName componentName this = this\<lparr>componentName_' := componentName\<rparr>"

definition getComponentName :: "('n, 'm) UnimplementedViewProps_scheme \<Rightarrow> 'n" where
  "getComponentName this = componentName_' this"

text \<open>
  The interface of the class as a caller sees it: a call names one of the two member
  functions, and completes either with an error or with what the function hands back
  together with the object afterwards. \<^verbatim>\<open>setComponentName\<close> returns \<^verbatim>\<open>void\<close>;
  \<^verbatim>\<open>getComponentName\<close> is \<^verbatim>\<open>const\<close> and leaves the object as it is. Neither body
  contains a \<^verbatim>\<open>throw\<close>, a check or an early return, so neither clause has an \<open>Inl\<close> branch.
\<close>

datatype 'n call = SetComponentName 'n | GetComponentName

datatype 'n returned = Void | Value 'n

datatype error = Exception

fun invoke ::
  "'n call \<Rightarrow> ('n, 'm) UnimplementedViewProps_scheme
    \<Rightarrow> error + ('n returned \<times> ('n, 'm) UnimplementedViewProps_scheme)" where
  "invoke (SetComponentName componentName) this = Inr (Void, setComponentName componentName this)"
| "invoke GetComponentName this = Inr (Value (getComponentName this), this)"


section \<open>ABI46_0_0EXDeviceType (ABI46_0_0EXDevice.h)\<close>

text \<open>
  \<^verbatim>\<open>
  // Keep this enum in sync with JavaScript
  typedef NS_ENUM(NSInteger, ABI46_0_0EXDeviceType) {
      ABI46_0_0EXDeviceTypeUnknown = 0,
      ABI46_0_0EXDeviceTypePhone,
      ABI46_0_0EXDeviceTypeTablet,
      ABI46_0_0EXDeviceTypeDesktop,
      ABI46_0_0EXDeviceTypeTV,
  };
  \<close>
  The constructors of the datatype are the names of the declared enumerators, no more.
  A variable of the enumeration type holds an \<^verbatim>\<open>NSInteger\<close>, and the language lets it
  hold an integer that no enumerator has: what is stated below is about the declared
  enumerators and their values, never about all values such a variable can take. The
  underlying type \<^verbatim>\<open>NSInteger\<close> is a signed machine integer of the platform's word size;
  the values in play are far from either bound, so they are read as \<open>int\<close>.
\<close>

datatype ABI46_0_0EXDeviceType =
    ABI46_0_0EXDeviceTypeUnknown
  | ABI46_0_0EXDeviceTypePhone
  | ABI46_0_0EXDeviceTypeTablet
  | ABI46_0_0EXDeviceTypeDesktop
  | ABI46_0_0EXDeviceTypeTV

type_synonym NSInteger = int

text \<open>
  The enumerator list as it is written: each enumerator with its initialiser, if it has
  one. Only the first has one.
\<close>

definition ABI46_0_0EXDeviceType_enumerators :: "(ABI46_0_0EXDeviceType \<times> NSInteger option) list" where
  "ABI46_0_0EXDeviceType_enumerators =
    [(ABI46_0_0EXDeviceTypeUnknown, Some 0),
     (ABI46_0_0EXDeviceTypePhone, None),
     (ABI46_0_0EXDeviceTypeTablet, None),
     (ABI46_0_0EXDeviceTypeDesktop, None),
     (ABI46_0_0EXDeviceTypeTV, None)]"

text \<open>
  The rule of C for the value of an enumerator: its initialiser when it has one, otherwise
  the value of the previous enumerator plus one (zero for a first enumerator without
  initialiser). \<open>enumerator_values n es\<close> assigns the values of \<open>es\<close>, where \<open>n\<close> is
  what an enumerator without initialiser gets next.
\<close>

fun enumerator_values :: "NSInteger \<Rightarrow> ('a \<times> NSInteger option) list \<Rightarrow> ('a \<times> NSInteger) list" where
  "enumerator_values n [] = []"
| "enumerator_values n ((e, Some v) # es) = (e, v) # enumerator_values (v + 1) es"
| "enumerator_values n ((e, None) # es) = (e, n) # enumerator_values (n + 1) es"

definition ABI46_0_0EXDeviceType_values :: "(ABI46_0_0EXDeviceType \<times> NSInteger) list" where
  "ABI46_0_0EXDeviceType_values = enumerator_values 0 ABI46_0_0EXDeviceType_enumerators"


section \<open>EXJavaScriptFunction (EXJavaScriptFunction.h)\<close>

text \<open>
  \<^verbatim>\<open>
  @interface EXJavaScriptFunction : NSObject
  - (nonnull instancetype)initWith:(std::shared_ptr<jsi::Function>)function
                           runtime:(nonnull EXJavaScriptRuntime *)runtime;
  @end
  \<close>
  The header declares the initialiser; its body is in an implementation file outside the
  excerpt. A \<^verbatim>\<open>std::shared_ptr\<close> is empty or refers to a function (\<open>'f option\<close>); the
  runtime parameter is annotated \<^verbatim>\<open>nonnull\<close>, so it is a runtime (\<open>'r\<close>); the result is
  an Objective-C object pointer, \<^verbatim>\<open>nil\<close> or an instance (\<open>option\<close>).
\<close>

record ('f, 'r) EXJavaScriptFunction =
  function_handle :: "'f option"
  runtime_ref :: 'r

text \<open>
  Modelled from the spec: the body of \<^verbatim>\<open>initWith:runtime:\<close> (the implementation file of
  \<^verbatim>\<open>EXJavaScriptFunction\<close> is missing). The spec describes the wrapper as "a handle
  pairing a shared reference to a callable JS value with its owning runtime", built by a
  constructor that "takes a shared callable handle and a runtime reference".
\<close>

definition initWith :: "'f option \<Rightarrow> 'r \<Rightarrow> ('f, 'r) EXJavaScriptFunction option" where
  "initWith function' runtime = Some \<lparr>function_handle = function', runtime_ref = runtime\<rparr>"


section \<open>Properties of UnimplementedViewProps\<close>

lemma componentName_setComponentName:
  "componentName_' (setComponentName x this) = x"
  by (simp add: setComponentName_def)

text \<open>
  C1. For every props object and every component name \<open>x\<close>, reading the name with
  \<^verbatim>\<open>getComponentName()\<close> after \<^verbatim>\<open>setComponentName(x)\<close> gives \<open>x\<close>.
\<close>

theorem getComponentName_setComponentName:
  "getComponentName (setComponentName x this) = x"
  unfolding getComponentName_def by (rule componentName_setComponentName)

text \<open>
  C2. The object's state is its \<open>componentName_'\<close> and nothing else of its own:
  \<^verbatim>\<open>setComponentName(x)\<close> yields the object whose \<open>componentName_'\<close> is \<open>x\<close> and whose
  every other part is that of the object before the call; on an object with no other
  part the result is determined by \<open>x\<close> alone.
\<close>

theorem setComponentName_frame:
  "setComponentName x this = \<lparr>componentName_' = x, \<dots> = UnimplementedViewProps.more this\<rparr>
   \<and> setComponentName x (plain :: 'n UnimplementedViewProps) = \<lparr>componentName_' = x\<rparr>"
proof
  show "setComponentName x this = \<lparr>componentName_' = x, \<dots> = UnimplementedViewProps.more this\<rparr>"
    by (cases this) (simp add: setComponentName_def)
  show "setComponentName x plain = \<lparr>componentName_' = x\<rparr>"
    by (cases plain) (simp add: setComponentName_def)
qed

text \<open>
  C3. Both accessors are total and have no error condition: on every object and for
  every name, a call to \<^verbatim>\<open>setComponentName\<close> completes (returning nothing) and a call to
  \<^verbatim>\<open>getComponentName\<close> completes with a value; no call ends in an error.
\<close>

theorem accessors_never_fail:
  "(\<exists>this'. invoke (SetComponentName x) this = Inr (Void, this'))
   \<and> (\<exists>v. invoke GetComponentName this = Inr (Value v, this))
   \<and> (\<forall>c. \<exists>r this'. invoke c this = Inr (r, this'))"
proof (intro conjI allI)
  show "\<exists>this'. invoke (SetComponentName x) this = Inr (Void, this')" by simp
  show "\<exists>v. invoke GetComponentName this = Inr (Value v, this)" by simp
  fix c :: "'a call"
  show "\<exists>r this'. invoke c this = Inr (r, this')" by (cases c) simp_all
qed

text \<open>
  C5. Nothing requires a write before a read: \<^verbatim>\<open>getComponentName()\<close> on an object on
  which \<^verbatim>\<open>setComponentName\<close> was never called (its \<open>componentName_'\<close> still holds the
  value \<open>d\<close> it was initialised with, whatever that is) does not fail, returns \<open>d\<close> and
  leaves the object as it was.
\<close>

theorem getComponentName_without_set:
  "invoke GetComponentName \<lparr>componentName_' = d, \<dots> = rest\<rparr>
     = Inr (Value d, \<lparr>componentName_' = d, \<dots> = rest\<rparr>)
   \<and> getComponentName \<lparr>componentName_' = d, \<dots> = rest\<rparr> = d"
  by (simp add: getComponentName_def)

text \<open>
  C10. \<^verbatim>\<open>setComponentName\<close> overwrites unconditionally, so the last write wins: after
  setting \<open>x\<close> and then \<open>y\<close> the stored name is \<open>y\<close> (it is what \<^verbatim>\<open>getComponentName()\<close>
  returns), whatever \<open>x\<close> and the name stored before were, and the object is exactly the
  one that setting \<open>y\<close> alone gives: \<open>y\<close> stored, every other part as in the object
  before both calls. A second call is as good as a first one.
\<close>

theorem setComponentName_last_write_wins:
  "getComponentName (setComponentName y (setComponentName x this)) = y
   \<and> setComponentName y (setComponentName x this) = setComponentName y this
   \<and> setComponentName y (setComponentName x this)
       = \<lparr>componentName_' = y, \<dots> = UnimplementedViewProps.more this\<rparr>"
proof (intro conjI)
  show "getComponentName (setComponentName y (setComponentName x this)) = y"
    unfolding getComponentName_def by (rule componentName_setComponentName)
  show "setComponentName y (setComponentName x this) = setComponentName y this"
    by (simp add: setComponentName_def)
  show "setComponentName y (setComponentName x this)
       = \<lparr>componentName_' = y, \<dots> = UnimplementedViewProps.more this\<rparr>"
    by (cases this) (simp add: setComponentName_def)
qed


section \<open>Properties of ABI46_0_0EXDeviceType\<close>

lemma ABI46_0_0EXDeviceType_values_eq:
  "ABI46_0_0EXDeviceType_values =
    [(ABI46_0_0EXDeviceTypeUnknown, 0),
     (ABI46_0_0EXDeviceTypePhone, 1),
     (ABI46_0_0EXDeviceTypeTablet, 2),
     (ABI46_0_0EXDeviceTypeDesktop, 3),
     (ABI46_0_0EXDeviceTypeTV, 4)]"
  by (simp add: ABI46_0_0EXDeviceType_values_def ABI46_0_0EXDeviceType_enumerators_def)

text \<open>
  C4. The device type is declared as an enumeration of exactly five members: the
  declaration lists Unknown, Phone, Tablet, Desktop and TV, in this order and each once,
  and lists no other enumerator.
\<close>

theorem ABI46_0_0EXDeviceType_members:
  "map fst ABI46_0_0EXDeviceType_enumerators =
     [ABI46_0_0EXDeviceTypeUnknown, ABI46_0_0EXDeviceTypePhone, ABI46_0_0EXDeviceTypeTablet,
      ABI46_0_0EXDeviceTypeDesktop, ABI46_0_0EXDeviceTypeTV]
   \<and> distinct (map fst ABI46_0_0EXDeviceType_enumerators)
   \<and> length ABI46_0_0EXDeviceType_enumerators = 5
   \<and> set (map fst ABI46_0_0EXDeviceType_enumerators) =
       {ABI46_0_0EXDeviceTypeUnknown, ABI46_0_0EXDeviceTypePhone, ABI46_0_0EXDeviceTypeTablet,
        ABI46_0_0EXDeviceTypeDesktop, ABI46_0_0EXDeviceTypeTV}"
  by (simp add: ABI46_0_0EXDeviceType_enumerators_def)

text \<open>
  C9. The underlying integer values are consecutive from zero: Unknown = 0, Phone = 1,
  Tablet = 2, Desktop = 3, TV = 4.
\<close>

theorem ABI46_0_0EXDeviceType_values_consecutive:
  "map_of ABI46_0_0EXDeviceType_values ABI46_0_0EXDeviceTypeUnknown = Some 0
   \<and> map_of ABI46_0_0EXDeviceType_values ABI46_0_0EXDeviceTypePhone = Some 1
   \<and> map_of ABI46_0_0EXDeviceType_values ABI46_0_0EXDeviceTypeTablet = Some 2
   \<and> map_of ABI46_0_0EXDeviceType_values ABI46_0_0EXDeviceTypeDesktop = Some 3
   \<and> map_of ABI46_0_0EXDeviceType_values ABI46_0_0EXDeviceTypeTV = Some 4
   \<and> map snd ABI46_0_0EXDeviceType_values = map int [0 ..< length ABI46_0_0EXDeviceType_enumerators]"
  by (simp add: ABI46_0_0EXDeviceType_values_eq ABI46_0_0EXDeviceType_enumerators_def upt_rec)


section \<open>Properties of EXJavaScriptFunction\<close>

text \<open>
  C7. The wrapper is built from exactly two inputs, a shared handle to a JS function and
  a (non-null) runtime, and for every such pair the initialiser returns a wrapper, never
  \<^verbatim>\<open>nil\<close>; the wrapper refers to the function and the runtime it was given.
\<close>

theorem initWith_nonnull:
  "initWith f r \<noteq> None
   \<and> (\<exists>w. initWith f r = Some w \<and> function_handle w = f \<and> runtime_ref w = r)"
  by (simp add: initWith_def)

end
